theory Spec2Isabelle
  imports Main "HOL-Library.Word"
begin

unbundle bit_operations_syntax

section \<open>Data model of the scan-out driver (src/vga.cc, src/vga.h)\<close>

text \<open>
  Machine integers are words: \<open>unsigned\<close>, \<open>int\<close> and the register type \<open>Word\<close> of
  the ARMv7-M target are 32 bits wide, \<open>unsigned short\<close> is 16 bits, a \<open>Pixel\<close> is one
  byte. Arithmetic on them wraps around. A pointer is \<open>None\<close> for \<open>nullptr\<close> and
  \<open>Some a\<close> for the address \<open>a\<close>.
\<close>

type_synonym Pixel = "8 word"
type_synonym Word = "32 word"
type_synonym ushort = "16 word"
type_synonym band_ptr = "nat option"
type_synonym rasterizer_ptr = "nat option"

datatype Polarity = positive | negative

text \<open>
  Modelled from the spec: the declaration of \<open>struct Timing\<close> (vga/timing.h) is not among
  the source files. The record has the fields that vga.cc reads, under the names vga.cc
  uses; the scalar ones are 16 bits wide, which is the width the casts
  \<open>static_cast<unsigned short>(timing.video_start_line - 1)\<close> of vga.cc restore. The clock
  configuration is an opaque token.
\<close>

record Timing =
  clock_config :: nat
  line_pixels :: ushort
  sync_pixels :: ushort
  back_porch_pixels :: ushort
  video_lead :: ushort
  video_pixels :: ushort
  hsync_polarity :: Polarity
  vsync_start_line :: ushort
  vsync_end_line :: ushort
  video_start_line :: ushort
  video_end_line :: ushort
  vsync_polarity :: Polarity

text \<open>The vertical timing state: \<open>enum class State\<close> and its Gray code.\<close>

datatype State = blank | starting | active | finishing

fun State_code :: "State \<Rightarrow> Word" where
  "State_code blank = 0"
| "State_code starting = 1"
| "State_code active = 3"
| "State_code finishing = 2"

definition is_displayed_state :: "State \<Rightarrow> bool" where
  "is_displayed_state s = (State_code s AND 2 \<noteq> 0)"

definition is_rendered_state :: "State \<Rightarrow> bool" where
  "is_rendered_state s = (State_code s AND 1 \<noteq> 0)"

text \<open>\<open>struct Band\<close> of vga.h; the field \<open>next\<close> is called \<open>next_band\<close> here.\<close>

record Band =
  rasterizer :: rasterizer_ptr
  line_count :: Word
  next_band :: band_ptr

text \<open>
  Modelled from the spec: \<open>Rasterizer::LineShape\<close> (vga/rasterizer.h) is not among the
  source files. The spec gives it as the pair of a length and a horizontal offset; the
  offset is a signed and the length an unsigned 32-bit integer.
\<close>

record LineShape =
  shape_offset :: Word
  shape_length :: Word

text \<open>
  One of the two horizontal timers. Of the registers of a \<open>GpTimer\<close> the record keeps the
  prescaler, the period, the three compare registers, and the bits of CCER, DIER, CR1 and
  SR that vga.cc sets or tests. The mode constants written to CCMR1, CR2 and SMCR are the
  same for every call and are left out.
\<close>

record GpTimer =
  in_reset :: bool
  psc :: Word
  arr :: Word
  ccr1 :: Word
  ccr2 :: Word
  ccr3 :: Word
  ccer_cc1e :: bool
  ccer_cc1p :: bool
  dier_cc2ie :: bool
  dier_cc3ie :: bool
  cr1_cen :: bool
  sr_cc2if :: bool
  sr_cc3if :: bool

definition max_pixels_per_line :: nat where
  "max_pixels_per_line = 800"

definition scan_buffer_size :: nat where
  "scan_buffer_size = max_pixels_per_line + 4"

text \<open>
  The driver's global variables together with the hardware they drive. The two row
  buffers are byte arrays indexed from 0: \<open>scan_buffer\<close> has \<open>scan_buffer_size\<close> bytes and
  \<open>working_buffer\<close> (the member \<open>working.buffer\<close>) has \<open>max_pixels_per_line\<close>; an access
  beyond these sizes is undefined in the source and is checked by the operations below.
  \<open>band_mem\<close> is the caller-owned memory in which bands live, read through band pointers.
\<close>

record driver =
  current_timing :: Timing
  current_line :: Word
  state :: State
  scan_buffer :: "nat \<Rightarrow> Pixel"
  working_buffer :: "nat \<Rightarrow> Pixel"
  working_buffer_shape :: LineShape
  band_list_head :: band_ptr
  current_band :: Band
  band_list_taken :: bool
  band_mem :: "nat \<Rightarrow> Band"
  tim3 :: GpTimer
  tim4 :: GpTimer
  tim3_irq_enabled :: bool
  tim4_irq_enabled :: bool
  cpu_clock_config :: nat
  stream1_en :: bool
  stream1_ndtr :: Word
  gpiob_p7 :: bool
  sync_outputs :: bool
  video_outputs :: bool
  pendsv_set :: bool

section \<open>The horizontal timing interrupt\<close>

text \<open>
  \<open>start_of_active_video\<close>: outside the displayed states nothing happens; in them the
  DMA stream is configured (always with the same constants) and enabled.
\<close>

definition start_of_active_video :: "driver \<Rightarrow> driver" where
  "start_of_active_video d =
     (if \<not> is_displayed_state (state d) then d else d\<lparr>stream1_en := True\<rparr>)"

text \<open>
  \<open>end_of_active_video\<close>. The 16-bit fields of the timing are promoted to 32 bits before
  they are added or compared with the line number; the two casts to \<open>unsigned short\<close>
  subtract 1 in 16 bits. \<open>line\<close> is set to \<open>-1\<close> in the last branch so that the final
  increment rolls it over to 0.
\<close>

definition empty_band :: Band where
  "empty_band = \<lparr>rasterizer = None, line_count = 0, next_band = None\<rparr>"

definition end_of_active_video :: "driver \<Rightarrow> driver" where
  "end_of_active_video d =
     (let timing = current_timing d;
          d1 = d\<lparr>tim4 := (tim4 d)\<lparr>ccr2 :=
                  ucast (sync_pixels timing) + ucast (back_porch_pixels timing)
                  - ucast (video_lead timing) + shape_offset (working_buffer_shape d)\<rparr>\<rparr>;
          d2 = d1\<lparr>pendsv_set := True\<rparr>;
          line = current_line d2;
          (d3, line') =
            (if line = 0 then (d2\<lparr>state := blank\<rparr>, line)
             else if line = ucast (vsync_start_line timing)
                   \<or> line = ucast (vsync_end_line timing)
               then (d2\<lparr>gpiob_p7 := \<not> gpiob_p7 d2\<rparr>, line)
             else if line = ucast (video_start_line timing - 1)
               then (d2\<lparr>state := starting,
                        current_band := (case band_list_head d2 of
                                           Some p \<Rightarrow> band_mem d2 p
                                         | None \<Rightarrow> empty_band),
                        band_list_taken := True\<rparr>, line)
             else if line = ucast (video_start_line timing)
               then (d2\<lparr>state := active\<rparr>, line)
             else if line = ucast (video_end_line timing - 1)
               then (d2\<lparr>state := finishing\<rparr>, - 1)
             else (d2, line))
      in d3\<lparr>current_line := line' + 1\<rparr>)"

text \<open>
  The same handler as the sequence of its stores, in the order in which the source
  performs them: the write to CCR2 of tim4, the write that pends PendSV, then the stores
  of the branch taken, and last the store to \<open>current_line\<close>. A state passed through a
  function does not show in which order its fields were written; this list does.
\<close>

datatype eav_store =
    Store_tim4_ccr2 Word
  | Store_pendsvset
  | Store_state State
  | Toggle_gpiob_p7
  | Store_current_band Band
  | Store_band_list_taken bool
  | Store_current_line Word

fun perform :: "eav_store \<Rightarrow> driver \<Rightarrow> driver" where
  "perform (Store_tim4_ccr2 v) d = d\<lparr>tim4 := (tim4 d)\<lparr>ccr2 := v\<rparr>\<rparr>"
| "perform Store_pendsvset d = d\<lparr>pendsv_set := True\<rparr>"
| "perform (Store_state s) d = d\<lparr>state := s\<rparr>"
| "perform Toggle_gpiob_p7 d = d\<lparr>gpiob_p7 := \<not> gpiob_p7 d\<rparr>"
| "perform (Store_current_band b) d = d\<lparr>current_band := b\<rparr>"
| "perform (Store_band_list_taken b) d = d\<lparr>band_list_taken := b\<rparr>"
| "perform (Store_current_line l) d = d\<lparr>current_line := l\<rparr>"

definition end_of_active_video_stores :: "driver \<Rightarrow> eav_store list" where
  "end_of_active_video_stores d =
     (let timing = current_timing d;
          line = current_line d
      in [Store_tim4_ccr2 (ucast (sync_pixels timing) + ucast (back_porch_pixels timing)
                           - ucast (video_lead timing) + shape_offset (working_buffer_shape d)),
          Store_pendsvset]
         @ (if line = 0 then [Store_state blank, Store_current_line (line + 1)]
            else if line = ucast (vsync_start_line timing)
                  \<or> line = ucast (vsync_end_line timing)
              then [Toggle_gpiob_p7, Store_current_line (line + 1)]
            else if line = ucast (video_start_line timing - 1)
              then [Store_state starting,
                    Store_current_band (case band_list_head d of
                                          Some p \<Rightarrow> band_mem d p
                                        | None \<Rightarrow> empty_band),
                    Store_band_list_taken True,
                    Store_current_line (line + 1)]
            else if line = ucast (video_start_line timing)
              then [Store_state active, Store_current_line (line + 1)]
            else if line = ucast (video_end_line timing - 1)
              then [Store_state finishing, Store_current_line (- 1 + 1)]
            else [Store_current_line (line + 1)]))"

text \<open>
  The stores of the vertical state machine: those to the state, the vsync output, the
  band snapshot, the taken flag and the line number.
\<close>

fun is_vertical_store :: "eav_store \<Rightarrow> bool" where
  "is_vertical_store (Store_tim4_ccr2 v) = False"
| "is_vertical_store Store_pendsvset = False"
| "is_vertical_store s = True"

text \<open>\<open>etl_stm32f4xx_tim4_handler\<close>: the compare-2 flag is served first.\<close>

definition etl_stm32f4xx_tim4_handler :: "driver \<Rightarrow> driver" where
  "etl_stm32f4xx_tim4_handler d =
     (let sr = tim4 d in
      if sr_cc2if sr then start_of_active_video (d\<lparr>tim4 := sr\<lparr>sr_cc2if := False\<rparr>\<rparr>)
      else if sr_cc3if sr then end_of_active_video (d\<lparr>tim4 := sr\<lparr>sr_cc3if := False\<rparr>\<rparr>)
      else d)"

section \<open>Driver API\<close>

text \<open>
  \<open>init\<close>, as far as it touches the modelled state: the band list is emptied and both
  groups of outputs are switched off. Clock enables, interrupt priorities, the DMA
  addresses and the flash settings are outside the model.
\<close>

definition sync_off :: "driver \<Rightarrow> driver" where
  "sync_off d = d\<lparr>sync_outputs := False\<rparr>"

definition video_off :: "driver \<Rightarrow> driver" where
  "video_off d = d\<lparr>video_outputs := False\<rparr>"

definition sync_on :: "driver \<Rightarrow> driver" where
  "sync_on d = d\<lparr>sync_outputs := True\<rparr>"

definition video_on :: "driver \<Rightarrow> driver" where
  "video_on d = d\<lparr>video_outputs := True\<rparr>"

definition init :: "driver \<Rightarrow> driver" where
  "init d = video_off (sync_off (d\<lparr>band_list_head := None, band_list_taken := False\<rparr>))"

text \<open>
  \<open>configure_h_timer\<close> programs one timer from the timing. The sums are formed in
  32 bits from the promoted 16-bit fields.
\<close>

definition configure_h_timer :: "Timing \<Rightarrow> GpTimer \<Rightarrow> GpTimer" where
  "configure_h_timer timing tim =
     tim\<lparr>in_reset := False,
         psc := 2 - 1,
         arr := ucast (line_pixels timing) - 1,
         ccr1 := ucast (sync_pixels timing),
         ccr2 := ucast (sync_pixels timing) + ucast (back_porch_pixels timing)
                 - ucast (video_lead timing),
         ccr3 := ucast (sync_pixels timing) + ucast (back_porch_pixels timing)
                 + ucast (video_pixels timing),
         ccer_cc1e := True,
         ccer_cc1p := (hsync_polarity timing = negative)\<rparr>"

text \<open>
  \<open>disable_h_timer\<close> puts the timer's peripheral into reset; the interrupt it also
  disables is switched off in \<open>configure_timing\<close> below, next to the call. What the reset
  does to the timer's registers is the hardware's business and is not modelled: every
  register the claims speak of is written again by \<open>configure_h_timer\<close>.
\<close>

definition disable_h_timer :: "GpTimer \<Rightarrow> GpTimer" where
  "disable_h_timer tim = tim\<lparr>in_reset := True\<rparr>"

text \<open>
  The busy-wait of \<open>configure_timing\<close> for the DMA stream. Only the hardware clears the
  enable bit; in this sequential model nothing runs between two reads, so the loop returns
  at once when the stream is idle and never (\<open>None\<close>) when it is not.
\<close>

partial_function (option) wait_for_stream1 :: "driver \<Rightarrow> driver option" where
  "wait_for_stream1 d = (if stream1_en d then wait_for_stream1 d else Some d)"

text \<open>
  The loop that scribbles over the working buffer, two bytes per round, from index \<open>i\<close>.
\<close>

function scribble :: "nat \<Rightarrow> (nat \<Rightarrow> Pixel) \<Rightarrow> (nat \<Rightarrow> Pixel)" where
  "scribble i buf =
     (if i < max_pixels_per_line
      then scribble (i + 2) (buf(i := 0xFF, i + 1 := 0x00))
      else buf)"
  by pat_completeness auto
termination
  by (relation "measure (\<lambda>(i, buf). max_pixels_per_line - i)") auto

text \<open>
  \<open>configure_timing\<close>. The result is \<open>None\<close> when the busy-wait does not return or when
  one of the four trailing pixels to be blanked lies outside \<open>scan_buffer\<close>.
\<close>

definition configure_timing :: "Timing \<Rightarrow> driver \<Rightarrow> driver option" where
  "configure_timing timing d0 =
     (let d1 = video_off (sync_off d0);
          d2 = d1\<lparr>tim4_irq_enabled := False, tim4 := disable_h_timer (tim4 d1)\<rparr>;
          d3 = d2\<lparr>tim3_irq_enabled := False, tim3 := disable_h_timer (tim3 d2)\<rparr>
      in case wait_for_stream1 d3 of
           None \<Rightarrow> None
         | Some d4 \<Rightarrow>
             (let d5 = d4\<lparr>cpu_clock_config := clock_config timing\<rparr>;
                  d6 = d5\<lparr>tim3 := configure_h_timer timing (tim3 d5)\<rparr>;
                  d7 = d6\<lparr>tim4 := configure_h_timer timing (tim4 d6)\<rparr>;
                  d8 = d7\<lparr>tim3 := (tim3 d7)\<lparr>ccr2 := ccr2 (tim3 d7) - 7\<rparr>\<rparr>;
                  d9 = d8\<lparr>tim4 := (tim4 d8)\<lparr>dier_cc2ie := True, dier_cc3ie := True\<rparr>\<rparr>;
                  d10 = d9\<lparr>tim3 := (tim3 d9)\<lparr>dier_cc2ie := True, dier_cc3ie := False\<rparr>\<rparr>;
                  d11 = d10\<lparr>gpiob_p7 := (case vsync_polarity timing of
                                            positive \<Rightarrow> False
                                          | negative \<Rightarrow> True)\<rparr>;
                  d12 = d11\<lparr>working_buffer := scribble 0 (working_buffer d11)\<rparr>;
                  v = unat (video_pixels timing)
              in if scan_buffer_size \<le> v + 3 then None
                 else
                   (let d13 = d12\<lparr>scan_buffer :=
                                 (scan_buffer d12)(v + 0 := 0, v + 1 := 0, v + 2 := 0, v + 3 := 0)\<rparr>;
                        d14 = d13\<lparr>current_line := 0, current_timing := timing\<rparr>;
                        d15 = d14\<lparr>tim3_irq_enabled := True, tim4_irq_enabled := True\<rparr>;
                        d16 = d15\<lparr>tim3 := (tim3 d15)\<lparr>cr1_cen := True\<rparr>\<rparr>
                    in Some (sync_on d16))))"

definition configure_band_list :: "band_ptr \<Rightarrow> driver \<Rightarrow> driver" where
  "configure_band_list head d = d\<lparr>band_list_head := head, band_list_taken := False\<rparr>"

definition in_vblank :: "driver \<Rightarrow> bool" where
  "in_vblank d = (current_line d < ucast (video_start_line (current_timing d)))"

section \<open>The band scheduler and the deferred render task\<close>

text \<open>
  \<open>get_next_rasterizer\<close> returns the rasterizer pointer together with the updated driver.
  It follows \<open>next\<close> pointers for as long as bands have a zero count; on a cyclic chain of
  such bands it does not return, which is the value \<open>None\<close>.
\<close>

partial_function (option) get_next_rasterizer :: "driver \<Rightarrow> (rasterizer_ptr \<times> driver) option" where
  "get_next_rasterizer d =
     (if line_count (current_band d) \<noteq> 0
      then Some (rasterizer (current_band d),
                 d\<lparr>current_band := (current_band d)\<lparr>line_count := line_count (current_band d) - 1\<rparr>\<rparr>)
      else (case next_band (current_band d) of
              Some p \<Rightarrow> get_next_rasterizer (d\<lparr>current_band := band_mem d p\<rparr>)
            | None \<Rightarrow> Some (None, d)))"

text \<open>
  Modelled from the spec: \<open>copy_words\<close> (vga/copy_words.h) is not among the source files.
  The spec calls it a word-granularity bulk copy: \<open>copy_words src dst n\<close> stores the first
  \<open>n\<close> words, that is \<open>4 * n\<close> bytes, of \<open>src\<close> at the start of \<open>dst\<close>.
\<close>

definition copy_words :: "(nat \<Rightarrow> Pixel) \<Rightarrow> (nat \<Rightarrow> Pixel) \<Rightarrow> nat \<Rightarrow> (nat \<Rightarrow> Pixel)" where
  "copy_words src dst n = (\<lambda>i. if i < 4 * n then src i else dst i)"

text \<open>Storing the 32-bit value 0 at word index \<open>w\<close> of a byte array.\<close>

definition store_zero_word :: "(nat \<Rightarrow> Pixel) \<Rightarrow> nat \<Rightarrow> (nat \<Rightarrow> Pixel)" where
  "store_zero_word buf w = (\<lambda>i. if 4 * w \<le> i \<and> i < 4 * w + 4 then 0 else buf i)"

text \<open>
  The first block of \<open>etl_armv7m_pend_sv_handler\<close>: the flip of the working buffer into
  the scan buffer. It is guarded by \<open>is_rendered_state\<close>. The result is \<open>None\<close> when the zero
  word or the copied words would lie outside the two buffers.
\<close>

definition pend_sv_flip :: "driver \<Rightarrow> driver option" where
  "pend_sv_flip d =
     (if is_rendered_state (state d) then
        (let n = shape_length (working_buffer_shape d) div 4 in
         if 4 * unat n + 4 \<le> scan_buffer_size \<and> 4 * unat n \<le> max_pixels_per_line
         then Some (d\<lparr>scan_buffer :=
                        copy_words (working_buffer d)
                          (store_zero_word (scan_buffer d) (unat n)) (unat n),
                      stream1_ndtr := n + 1\<rparr>)
         else None)
      else Some d)"

text \<open>
  Modelled from the spec: the class \<open>Rasterizer\<close> (vga/rasterizer.h) is not among the source
  files. Its one operation is taken as a parameter
  \<open>rasterize r visible_line buffer = (shape, buffer')\<close>, as the spec's
  \<open>rasterize(visible_line_index, target_row) -> LineShape\<close> with the row it has filled.
\<close>

type_synonym rasterize_fn = "nat \<Rightarrow> Word \<Rightarrow> (nat \<Rightarrow> Pixel) \<Rightarrow> LineShape \<times> (nat \<Rightarrow> Pixel)"

text \<open>
  The last block of \<open>etl_armv7m_pend_sv_handler\<close>: rendering of the next line into the
  working buffer, by the rasterizer the band scheduler returns, if it returns one.
\<close>

definition pend_sv_render :: "rasterize_fn \<Rightarrow> driver \<Rightarrow> driver option" where
  "pend_sv_render rasterize d =
     (if is_rendered_state (state d) then
        (let timing = current_timing d;
             line = current_line d in
         if ucast (video_start_line timing) \<le> line \<and> line \<le> ucast (video_end_line timing)
         then
           (let visible_line = line - ucast (video_start_line timing) in
            case get_next_rasterizer d of
              None \<Rightarrow> None
            | Some (None, d') \<Rightarrow> Some d'
            | Some (Some r, d') \<Rightarrow>
                (let (shape, buf) = rasterize r visible_line (working_buffer d')
                 in Some (d'\<lparr>working_buffer_shape := shape, working_buffer := buf\<rparr>)))
         else Some d)
      else Some d)"

text \<open>
  The application's hook \<open>vga_hblank_interrupt\<close> is a parameter; \<open>default_hblank_interrupt\<close>
  is the weak default. The handler runs the flip, the hook and the rendering in this order.
\<close>

definition default_hblank_interrupt :: "driver \<Rightarrow> driver" where
  "default_hblank_interrupt d = d"

definition etl_armv7m_pend_sv_handler ::
    "(driver \<Rightarrow> driver) \<Rightarrow> rasterize_fn \<Rightarrow> driver \<Rightarrow> driver option" where
  "etl_armv7m_pend_sv_handler vga_hblank_interrupt rasterize d =
     (case pend_sv_flip d of
        None \<Rightarrow> None
      | Some d1 \<Rightarrow> pend_sv_render rasterize (vga_hblank_interrupt d1))"

section \<open>Runs of the driver\<close>

text \<open>
  The vertical states after each of \<open>n\<close> successive end-of-active-video events.
\<close>

fun line_events :: "nat \<Rightarrow> driver \<Rightarrow> State list" where
  "line_events 0 d = []"
| "line_events (Suc n) d =
     state (end_of_active_video d) # line_events n (end_of_active_video d)"

text \<open>
  The results of \<open>n\<close> successive calls of \<open>get_next_rasterizer\<close>, with the driver after
  the last one.
\<close>

fun successive_calls :: "nat \<Rightarrow> driver \<Rightarrow> (rasterizer_ptr list \<times> driver) option" where
  "successive_calls 0 d = Some ([], d)"
| "successive_calls (Suc n) d =
     (case get_next_rasterizer d of
        None \<Rightarrow> None
      | Some (r, d1) \<Rightarrow>
          (case successive_calls n d1 of
             None \<Rightarrow> None
           | Some (rs, d2) \<Rightarrow> Some (r # rs, d2)))"

text \<open>
  One line period when rendering ends within the line: the end-of-active-video event,
  the render task it pends (with the default hook), and the start-of-active-video event
  of the following line.
\<close>

definition line_period :: "rasterize_fn \<Rightarrow> driver \<Rightarrow> driver option" where
  "line_period rasterize d =
     map_option start_of_active_video
       (etl_armv7m_pend_sv_handler default_hblank_interrupt rasterize (end_of_active_video d))"

text \<open>
  \<open>n\<close> line periods: the first pixel of the scan buffer at each start-of-active-video
  event that starts the stream (the state is displayed), in order, and the driver at the end.
\<close>

fun scanned_rows :: "rasterize_fn \<Rightarrow> nat \<Rightarrow> driver \<Rightarrow> (Pixel list \<times> driver) option" where
  "scanned_rows rasterize 0 d = Some ([], d)"
| "scanned_rows rasterize (Suc n) d =
     (case line_period rasterize d of
        None \<Rightarrow> None
      | Some d' \<Rightarrow>
          (case scanned_rows rasterize n d' of
             None \<Rightarrow> None
           | Some (rows, d'') \<Rightarrow>
               Some (if is_displayed_state (state d') then scan_buffer d' 0 # rows else rows,
                     d'')))"

text \<open>
  \<open>clear_band_list\<close> runs in the foreground and the interrupt handlers preempt it, so it
  is modelled by its atomic steps. \<open>configure_band_list(nullptr)\<close> is two stores
  (\<open>Store_head\<close>, \<open>Store_taken\<close>); the loop reads the flag (\<open>Test_taken\<close>) and either returns
  or executes \<open>wait_for_interrupt\<close> (\<open>Idle\<close>), after which it reads the flag again.
\<close>

datatype clear_pc = Store_head | Store_taken | Test_taken | Idle | Returned

fun clear_band_list_step :: "clear_pc \<times> driver \<Rightarrow> clear_pc \<times> driver" where
  "clear_band_list_step (Store_head, d) = (Store_taken, d\<lparr>band_list_head := None\<rparr>)"
| "clear_band_list_step (Store_taken, d) = (Test_taken, d\<lparr>band_list_taken := False\<rparr>)"
| "clear_band_list_step (Test_taken, d) = (if band_list_taken d then Returned else Idle, d)"
| "clear_band_list_step (Idle, d) = (Test_taken, d)"
| "clear_band_list_step (Returned, d) = (Returned, d)"



section \<open>Concrete inputs\<close>

text \<open>
  The driver before \<open>init\<close>: the static variables are zero-initialised and the registers
  hold zero.
\<close>

definition reset_timer :: GpTimer where
  "reset_timer = \<lparr>in_reset = False, psc = 0, arr = 0, ccr1 = 0, ccr2 = 0, ccr3 = 0,
                  ccer_cc1e = False, ccer_cc1p = False, dier_cc2ie = False,
                  dier_cc3ie = False, cr1_cen = False, sr_cc2if = False, sr_cc3if = False\<rparr>"

definition zero_timing :: Timing where
  "zero_timing = \<lparr>clock_config = 0, line_pixels = 0, sync_pixels = 0, back_porch_pixels = 0,
                  video_lead = 0, video_pixels = 0, hsync_polarity = positive,
                  vsync_start_line = 0, vsync_end_line = 0, video_start_line = 0,
                  video_end_line = 0, vsync_polarity = positive\<rparr>"

definition power_on :: driver where
  "power_on = \<lparr>current_timing = zero_timing, current_line = 0, state = blank,
               scan_buffer = (\<lambda>i. 0), working_buffer = (\<lambda>i. 0),
               working_buffer_shape = \<lparr>shape_offset = 0, shape_length = 0\<rparr>,
               band_list_head = None, current_band = empty_band, band_list_taken = False,
               band_mem = (\<lambda>a. empty_band), tim3 = reset_timer, tim4 = reset_timer,
               tim3_irq_enabled = False, tim4_irq_enabled = False, cpu_clock_config = 0,
               stream1_en = False, stream1_ndtr = 0, gpiob_p7 = False,
               sync_outputs = False, video_outputs = False, pendsv_set = False\<rparr>"

text \<open>
  The timing of the spec's scenario (100 pixels per line: 10 of sync, 20 of back porch,
  60 visible), with a lead of 3 pixels and a frame of 9 lines: vsync on lines 1 to 3,
  video from line 5.
\<close>

definition scenario_timing :: Timing where
  "scenario_timing = \<lparr>clock_config = 1, line_pixels = 100, sync_pixels = 10,
                      back_porch_pixels = 20, video_lead = 3, video_pixels = 60,
                      hsync_polarity = negative, vsync_start_line = 1, vsync_end_line = 3,
                      video_start_line = 5, video_end_line = 9, vsync_polarity = negative\<rparr>"

text \<open>The driver in the scenario's timing, at line \<open>L\<close>.\<close>

definition at_line :: "Word \<Rightarrow> driver" where
  "at_line L = power_on\<lparr>current_timing := scenario_timing, current_line := L\<rparr>"

text \<open>A timing whose video is one line long: it starts on line 5 and ends before line 6.\<close>

definition one_line_timing :: Timing where
  "one_line_timing = scenario_timing\<lparr>video_start_line := 5, video_end_line := 6\<rparr>"

text \<open>
  A timing without vertical back porch: the vsync pulse ends on line 4, the line before
  the video starts.
\<close>

definition no_back_porch_timing :: Timing where
  "no_back_porch_timing = scenario_timing\<lparr>vsync_end_line := 4\<rparr>"

text \<open>
  The band list \<open>[(R1, 2) -> (R2, 1) -> nil]\<close> with \<open>R1 = 11\<close> and \<open>R2 = 22\<close>: the second band
  lives at address 2, and the first is installed as \<open>current_band\<close>.
\<close>

definition two_bands :: driver where
  "two_bands = power_on
     \<lparr>current_band := \<lparr>rasterizer = Some 11, line_count = 2, next_band = Some 2\<rparr>,
      band_mem := (\<lambda>a. empty_band)(2 := \<lparr>rasterizer = Some 22, line_count = 1, next_band = None\<rparr>)\<rparr>"

text \<open>
  A driver in vertical state \<open>s\<close> whose working buffer holds a rendered row of 8 pixels
  of value 255, while the scan buffer is still all zero.
\<close>

definition row_ready :: "State \<Rightarrow> driver" where
  "row_ready s = power_on\<lparr>state := s, working_buffer := (\<lambda>i. 0xFF),
                         working_buffer_shape := \<lparr>shape_offset = 0, shape_length = 8\<rparr>\<rparr>"

text \<open>A rasterizer that fills the row with pixels of value 255 and reports 8 of them.\<close>

definition solid_rasterize :: rasterize_fn where
  "solid_rasterize r line buf = (\<lparr>shape_offset = 0, shape_length = 8\<rparr>, (\<lambda>i. 0xFF))"

text \<open>
  A rasterizer that marks every pixel of visible line \<open>v\<close> with the value \<open>v + 1\<close> and
  reports 4 pixels.
\<close>

definition numbering_rasterize :: rasterize_fn where
  "numbering_rasterize r line buf =
     (\<lparr>shape_offset = 0, shape_length = 4\<rparr>, (\<lambda>i. ucast line + 1))"

text \<open>
  The start of a frame in the scenario's timing, with a band list of one band that covers
  the four visible lines.
\<close>

definition one_band_frame :: driver where
  "one_band_frame = (at_line 0)
     \<lparr>band_list_head := Some 1,
      band_mem := (\<lambda>a. empty_band)(1 := \<lparr>rasterizer = Some 7, line_count = 4, next_band = None\<rparr>)\<rparr>"


section \<open>Auxiliary predicates of the proofs\<close>

text \<open>
  The lines on which \<open>end_of_active_video\<close> acts are pairwise different: video starts
  after line 1 and is at least two lines long, and no edge of the vsync pulse falls on
  the line before the video, on its first line or on its last line.
\<close>

definition distinct_lines :: "Timing \<Rightarrow> bool" where
  "distinct_lines t =
     (1 < unat (video_start_line t)
      \<and> unat (video_start_line t) + 1 < unat (video_end_line t)
      \<and> unat (vsync_start_line t) \<noteq> unat (video_start_line t) - 1
      \<and> unat (vsync_start_line t) \<noteq> unat (video_start_line t)
      \<and> unat (vsync_start_line t) \<noteq> unat (video_end_line t) - 1
      \<and> unat (vsync_end_line t) \<noteq> unat (video_start_line t) - 1
      \<and> unat (vsync_end_line t) \<noteq> unat (video_start_line t)
      \<and> unat (vsync_end_line t) \<noteq> unat (video_end_line t) - 1)"

text \<open>
  The last line of the frame reaches the last branch of \<open>end_of_active_video\<close>: it is
  not line 0, not an edge of the vsync pulse and not the first line of the video.
\<close>

definition wrap_line_reachable :: "Timing \<Rightarrow> bool" where
  "wrap_line_reachable t =
     (video_end_line t - 1 \<noteq> 0
      \<and> video_end_line t - 1 \<noteq> vsync_start_line t
      \<and> video_end_line t - 1 \<noteq> vsync_end_line t
      \<and> video_end_line t - 1 \<noteq> video_start_line t)"






section \<open>Basic facts\<close>

declare scribble.simps [simp del]

lemma is_rendered_state_iff: "is_rendered_state s = (s = starting \<or> s = active)"
  by (cases s) (simp_all add: is_rendered_state_def)

lemma is_displayed_state_iff: "is_displayed_state s = (s = active \<or> s = finishing)"
  by (cases s) (simp_all add: is_displayed_state_def)

lemma wait_for_stream1_idle: "\<not> stream1_en d \<Longrightarrow> wait_for_stream1 d = Some d"
  by (subst wait_for_stream1.simps) simp

lemma wait_for_stream1_Some:
  assumes "wait_for_stream1 d = Some d'"
  shows "d' = d \<and> \<not> stream1_en d"
  by (rule wait_for_stream1.raw_induct [OF _ assms]) (simp split: if_splits)

lemma configure_timing_idle:
  assumes "\<not> stream1_en d" and "unat (video_pixels t) + 3 < scan_buffer_size"
  shows "\<exists>d'. configure_timing t d = Some d'"
  using assms
  by (simp add: configure_timing_def Let_def wait_for_stream1_idle sync_off_def video_off_def)

lemma configure_timing_globals:
  assumes "configure_timing t d = Some d'"
  shows "current_line d' = 0 \<and> current_timing d' = t"
  using assms
  by (auto simp: configure_timing_def Let_def sync_on_def split: option.splits if_splits)

lemma configure_timing_tim4:
  assumes "configure_timing t d = Some d'"
  shows "ccr1 (tim4 d') = ucast (sync_pixels t)
       \<and> ccr2 (tim4 d') = ucast (sync_pixels t) + ucast (back_porch_pixels t) - ucast (video_lead t)
       \<and> ccr3 (tim4 d') = ucast (sync_pixels t) + ucast (back_porch_pixels t) + ucast (video_pixels t)"
  using assms
  by (auto simp: configure_timing_def Let_def sync_on_def configure_h_timer_def
           split: option.splits if_splits)

lemma configure_timing_tim3:
  assumes "configure_timing t d = Some d'"
  shows "ccr1 (tim3 d') = ucast (sync_pixels t)
       \<and> ccr2 (tim3 d') = ucast (sync_pixels t) + ucast (back_porch_pixels t) - ucast (video_lead t) - 7
       \<and> ccr3 (tim3 d') = ucast (sync_pixels t) + ucast (back_porch_pixels t) + ucast (video_pixels t)"
  using assms
  by (auto simp: configure_timing_def Let_def sync_on_def configure_h_timer_def
           split: option.splits if_splits)

text \<open>The band scheduler changes nothing but \<open>current_band\<close>.\<close>

lemma get_next_rasterizer_frame:
  assumes "get_next_rasterizer d = Some y"
  shows "snd y = d\<lparr>current_band := current_band (snd y)\<rparr>"
proof (rule get_next_rasterizer.raw_induct [OF _ assms])
  fix f :: "driver \<Rightarrow> (rasterizer_ptr \<times> driver) option" and d y
  assume IH: "\<And>x y. f x = Some y \<Longrightarrow> snd y = x\<lparr>current_band := current_band (snd y)\<rparr>"
    and step: "(if line_count (current_band d) \<noteq> 0
        then Some (rasterizer (current_band d),
               d\<lparr>current_band := (current_band d)\<lparr>line_count := line_count (current_band d) - 1\<rparr>\<rparr>)
        else case next_band (current_band d) of None \<Rightarrow> Some (None, d)
             | Some p \<Rightarrow> f (d\<lparr>current_band := band_mem d p\<rparr>)) = Some y"
  show "snd y = d\<lparr>current_band := current_band (snd y)\<rparr>"
  proof (cases "line_count (current_band d) \<noteq> 0")
    case True
    with step show ?thesis by auto
  next
    case False
    show ?thesis
    proof (cases "next_band (current_band d)")
      case None
      with False step show ?thesis by auto
    next
      case (Some p)
      with False step have "f (d\<lparr>current_band := band_mem d p\<rparr>) = Some y" by simp
      from IH [OF this] have "snd y = d\<lparr>current_band := current_band (snd y)\<rparr>" by simp
      then show ?thesis .
    qed
  qed
qed

lemma get_next_rasterizer_exhausted:
  "line_count (current_band d) = 0 \<Longrightarrow> next_band (current_band d) = None \<Longrightarrow>
     get_next_rasterizer d = Some (None, d)"
  by (subst get_next_rasterizer.simps) simp

lemma at_line_simps:
  "current_line (at_line L) = L" "current_timing (at_line L) = scenario_timing"
  "state (at_line L) = blank" "gpiob_p7 (at_line L) = False"
  "band_list_head (at_line L) = None" "band_list_taken (at_line L) = False"
  "current_band (at_line L) = empty_band"
  "working_buffer_shape (at_line L) = \<lparr>shape_offset = 0, shape_length = 0\<rparr>"
  by (simp_all add: at_line_def power_on_def)

lemma scenario_timing_simps:
  "vsync_start_line scenario_timing = 1" "vsync_end_line scenario_timing = 3"
  "video_start_line scenario_timing = 5" "video_end_line scenario_timing = 9"
  "sync_pixels scenario_timing = 10" "back_porch_pixels scenario_timing = 20"
  "video_lead scenario_timing = 3" "video_pixels scenario_timing = 60"
  "line_pixels scenario_timing = 100"
  by (simp_all add: scenario_timing_def)

lemma scenario_configured:
  "\<exists>d0. configure_timing scenario_timing power_on = Some d0"
proof -
  have "unat (video_pixels scenario_timing) + 3 < scan_buffer_size"
    by (simp add: scenario_timing_simps scan_buffer_size_def max_pixels_per_line_def)
  moreover have "\<not> stream1_en power_on" by (simp add: power_on_def)
  ultimately show ?thesis by (rule configure_timing_idle [rotated])
qed

section \<open>The end-of-active-video event\<close>

lemma eav_state:
  "state (end_of_active_video d) =
     (let L = current_line d; t = current_timing d in
      if L = 0 then blank
      else if L = ucast (vsync_start_line t) \<or> L = ucast (vsync_end_line t) then state d
      else if L = ucast (video_start_line t - 1) then starting
      else if L = ucast (video_start_line t) then active
      else if L = ucast (video_end_line t - 1) then finishing
      else state d)"
  by (simp add: end_of_active_video_def Let_def)

lemma eav_line:
  "current_line (end_of_active_video d) =
     (let L = current_line d; t = current_timing d in
      if L \<noteq> 0 \<and> L \<noteq> ucast (vsync_start_line t) \<and> L \<noteq> ucast (vsync_end_line t)
         \<and> L \<noteq> ucast (video_start_line t - 1) \<and> L \<noteq> ucast (video_start_line t)
         \<and> L = ucast (video_end_line t - 1)
      then 0 else L + 1)"
  by (simp add: end_of_active_video_def Let_def)

lemma eav_timing: "current_timing (end_of_active_video d) = current_timing d"
  by (simp add: end_of_active_video_def Let_def split: prod.splits)


lemma end_of_active_video_as_stores:
  "end_of_active_video d = foldl (\<lambda>x s. perform s x) d (end_of_active_video_stores d)"
  by (simp add: end_of_active_video_def end_of_active_video_stores_def Let_def
        split: option.split)

text \<open>
  C8: on every end-of-active-video event the compare register that times the start of
  active video (CC2 of tim4) is set to
  \<open>sync_pixels + back_porch_pixels - video_lead + offset\<close>, where \<open>offset\<close> is that of the
  stored line shape, and this is done before the vertical state machine runs: the handler
  is the sequence of its stores, the first of them is this write, and every store of the
  state machine (there is at least one) comes after it and after the pending of PendSV.
  The value is still in the register when the handler returns.
\<close>

theorem end_of_active_video_retimes_cc2:
  "end_of_active_video d = foldl (\<lambda>x s. perform s x) d (end_of_active_video_stores d)
   \<and> (\<exists>rest. end_of_active_video_stores d =
          Store_tim4_ccr2 (ucast (sync_pixels (current_timing d))
                           + ucast (back_porch_pixels (current_timing d))
                           - ucast (video_lead (current_timing d))
                           + shape_offset (working_buffer_shape d))
          # Store_pendsvset # rest
        \<and> rest \<noteq> [] \<and> (\<forall>s \<in> set rest. is_vertical_store s))
   \<and> ccr2 (tim4 (end_of_active_video d)) =
       ucast (sync_pixels (current_timing d)) + ucast (back_porch_pixels (current_timing d))
       - ucast (video_lead (current_timing d)) + shape_offset (working_buffer_shape d)
   \<and> working_buffer_shape (end_of_active_video d) = working_buffer_shape d
   \<and> current_timing (end_of_active_video d) = current_timing d"
proof -
  have "\<exists>rest. end_of_active_video_stores d =
          Store_tim4_ccr2 (ucast (sync_pixels (current_timing d))
                           + ucast (back_porch_pixels (current_timing d))
                           - ucast (video_lead (current_timing d))
                           + shape_offset (working_buffer_shape d))
          # Store_pendsvset # rest
        \<and> rest \<noteq> [] \<and> (\<forall>s \<in> set rest. is_vertical_store s)"
    by (simp add: end_of_active_video_stores_def Let_def)
  moreover have "ccr2 (tim4 (end_of_active_video d)) =
       ucast (sync_pixels (current_timing d)) + ucast (back_porch_pixels (current_timing d))
       - ucast (video_lead (current_timing d)) + shape_offset (working_buffer_shape d)
   \<and> working_buffer_shape (end_of_active_video d) = working_buffer_shape d
   \<and> current_timing (end_of_active_video d) = current_timing d"
    by (simp add: end_of_active_video_def Let_def split: prod.splits)
  ultimately show ?thesis using end_of_active_video_as_stores by blast
qed

text \<open>
  In the scenario (10 + 20 - 3 = 27) an offset of 2 gives 29; on line 2 the stores are
  the write of 29, the pending of PendSV and the new line number 3.
\<close>

theorem end_of_active_video_retimes_cc2_witness:
  "ccr2 (tim4 (end_of_active_video
      ((at_line 2)\<lparr>working_buffer_shape := \<lparr>shape_offset = 2, shape_length = 8\<rparr>\<rparr>))) = 29
   \<and> end_of_active_video_stores
        ((at_line 2)\<lparr>working_buffer_shape := \<lparr>shape_offset = 2, shape_length = 8\<rparr>\<rparr>)
       = [Store_tim4_ccr2 29, Store_pendsvset, Store_current_line 3]"
proof -
  let ?d = "(at_line 2)\<lparr>working_buffer_shape := \<lparr>shape_offset = 2, shape_length = 8\<rparr>\<rparr>"
  from end_of_active_video_retimes_cc2 [of ?d]
  have "ccr2 (tim4 (end_of_active_video ?d)) =
       ucast (sync_pixels (current_timing ?d)) + ucast (back_porch_pixels (current_timing ?d))
       - ucast (video_lead (current_timing ?d)) + shape_offset (working_buffer_shape ?d)"
    by blast
  then have "ccr2 (tim4 (end_of_active_video ?d)) = 29"
    by (simp add: at_line_simps scenario_timing_simps)
  moreover have "end_of_active_video_stores ?d
       = [Store_tim4_ccr2 29, Store_pendsvset, Store_current_line 3]"
    by (simp add: end_of_active_video_stores_def Let_def at_line_simps scenario_timing_simps)
  ultimately show ?thesis by simp
qed

text \<open>
  C3, amended: for every timing and every previous line number \<open>L\<close>, one
  end-of-active-video event acts by the first case that applies, in this order: \<open>L = 0\<close>
  sets the state to blank; \<open>L\<close> equal to \<open>vsync_start_line\<close> or \<open>vsync_end_line\<close> toggles the
  vsync output and keeps the state; \<open>L = video_start_line - 1\<close> sets the state to starting,
  copies the head of the band list (or the empty band when there is none) into
  \<open>current_band\<close> and sets the taken flag; \<open>L = video_start_line\<close> sets the state to active;
  \<open>L = video_end_line - 1\<close> sets the state to finishing and makes the next line number 0;
  otherwise the state is kept. Whenever \<open>L\<close> is not \<open>video_end_line - 1\<close> the line number
  becomes \<open>L + 1\<close>. Nothing is said of the line number when \<open>L = video_end_line - 1\<close> falls
  under an earlier case. The two differences \<open>video_start_line - 1\<close> and
  \<open>video_end_line - 1\<close> are those of the 16-bit fields.
\<close>

theorem end_of_active_video_cases:
  "let L = current_line d; t = current_timing d; d' = end_of_active_video d;
       vsync_edge = (L = ucast (vsync_start_line t) \<or> L = ucast (vsync_end_line t));
       vsync_kept = (gpiob_p7 d' = gpiob_p7 d);
       band_kept = (current_band d' = current_band d \<and> band_list_taken d' = band_list_taken d)
   in (L = 0 \<longrightarrow> state d' = blank \<and> vsync_kept \<and> band_kept)
    \<and> (L \<noteq> 0 \<and> vsync_edge \<longrightarrow>
         state d' = state d \<and> gpiob_p7 d' = (\<not> gpiob_p7 d) \<and> band_kept)
    \<and> (L \<noteq> 0 \<and> \<not> vsync_edge \<and> L = ucast (video_start_line t - 1) \<longrightarrow>
         state d' = starting \<and> vsync_kept
         \<and> current_band d' = (case band_list_head d of
                                  Some p \<Rightarrow> band_mem d p
                                | None \<Rightarrow> \<lparr>rasterizer = None, line_count = 0, next_band = None\<rparr>)
         \<and> band_list_taken d')
    \<and> (L \<noteq> 0 \<and> \<not> vsync_edge \<and> L \<noteq> ucast (video_start_line t - 1)
          \<and> L = ucast (video_start_line t) \<longrightarrow>
         state d' = active \<and> vsync_kept \<and> band_kept)
    \<and> (L \<noteq> 0 \<and> \<not> vsync_edge \<and> L \<noteq> ucast (video_start_line t - 1)
          \<and> L \<noteq> ucast (video_start_line t) \<and> L = ucast (video_end_line t - 1) \<longrightarrow>
         state d' = finishing \<and> current_line d' = 0 \<and> vsync_kept \<and> band_kept)
    \<and> (L \<noteq> 0 \<and> \<not> vsync_edge \<and> L \<noteq> ucast (video_start_line t - 1)
          \<and> L \<noteq> ucast (video_start_line t) \<and> L \<noteq> ucast (video_end_line t - 1) \<longrightarrow>
         state d' = state d \<and> vsync_kept \<and> band_kept)
    \<and> (L \<noteq> ucast (video_end_line t - 1) \<longrightarrow> current_line d' = L + 1)"
  unfolding Let_def
  by (intro conjI impI; (elim conjE)?;
      simp add: end_of_active_video_def Let_def empty_band_def split: option.split)

text \<open>The six cases in the scenario's timing, at the lines 0, 1, 3, 4, 5, 8 and 6.\<close>

theorem end_of_active_video_cases_witness:
  "state (end_of_active_video (at_line 0)) = blank
   \<and> current_line (end_of_active_video (at_line 0)) = 1
   \<and> gpiob_p7 (end_of_active_video (at_line 1)) = (\<not> gpiob_p7 (at_line 1))
   \<and> state (end_of_active_video (at_line 3)) = state (at_line 3)
   \<and> state (end_of_active_video (at_line 4)) = starting
   \<and> band_list_taken (end_of_active_video (at_line 4))
   \<and> current_band (end_of_active_video (at_line 4)) = empty_band
   \<and> state (end_of_active_video (at_line 5)) = active
   \<and> current_line (end_of_active_video (at_line 5)) = 6
   \<and> state (end_of_active_video (at_line 8)) = finishing
   \<and> current_line (end_of_active_video (at_line 8)) = 0
   \<and> state (end_of_active_video (at_line 6)) = state (at_line 6)
   \<and> current_line (end_of_active_video (at_line 6)) = 7"
  using end_of_active_video_cases [of "at_line 0"] end_of_active_video_cases [of "at_line 1"]
    end_of_active_video_cases [of "at_line 3"] end_of_active_video_cases [of "at_line 4"]
    end_of_active_video_cases [of "at_line 5"] end_of_active_video_cases [of "at_line 8"]
    end_of_active_video_cases [of "at_line 6"]
  by (simp add: Let_def at_line_simps scenario_timing_simps empty_band_def)

text \<open>
  C3 as stated, with every case on its own, fails where two cases meet: in the timing
  whose vsync pulse ends on line 4, the line before the video starts, line 4 is
  \<open>video_start_line - 1\<close>, yet the event only toggles vsync: the state is not starting and
  the taken flag is not set.
\<close>

theorem end_of_active_video_cases_counterexample:
  "current_line ((at_line 4)\<lparr>current_timing := no_back_porch_timing\<rparr>)
     = ucast (video_start_line (current_timing ((at_line 4)\<lparr>current_timing := no_back_porch_timing\<rparr>)) - 1)
   \<and> state (end_of_active_video ((at_line 4)\<lparr>current_timing := no_back_porch_timing\<rparr>)) \<noteq> starting
   \<and> \<not> band_list_taken (end_of_active_video ((at_line 4)\<lparr>current_timing := no_back_porch_timing\<rparr>))"
  by (simp add: at_line_def power_on_def no_back_porch_timing_def scenario_timing_def
        end_of_active_video_def Let_def)

section \<open>Activation\<close>

text \<open>
  C2, amended: for a timing with 100 pixels per line, 10 of sync, 20 of back porch and 60
  visible, \<open>configure_timing\<close> (entered with the DMA stream idle) returns and leaves the
  compare registers of tim4 at \<open>10\<close>, \<open>10 + 20 - lead\<close> and \<open>10 + 20 + 60\<close>, and those of
  tim3 at \<open>10\<close>, \<open>10 + 20 - lead - 7\<close> and \<open>10 + 20 + 60\<close>: the second threshold of tim3 is
  moved 7 pixels back.
\<close>

theorem configure_timing_scenario_thresholds:
  assumes "line_pixels t = 100" and "sync_pixels t = 10" and "back_porch_pixels t = 20"
    and "video_pixels t = 60" and "\<not> stream1_en d"
  shows "\<exists>d'. configure_timing t d = Some d'
           \<and> ccr1 (tim4 d') = 10 \<and> ccr2 (tim4 d') = 10 + 20 - ucast (video_lead t)
           \<and> ccr3 (tim4 d') = 10 + 20 + 60
           \<and> ccr1 (tim3 d') = 10 \<and> ccr2 (tim3 d') = 10 + 20 - ucast (video_lead t) - 7
           \<and> ccr3 (tim3 d') = 10 + 20 + 60"
proof -
  have "unat (video_pixels t) + 3 < scan_buffer_size"
    using assms(4) by (simp add: scan_buffer_size_def max_pixels_per_line_def)
  from configure_timing_idle [OF assms(5) this]
  obtain d' where d': "configure_timing t d = Some d'" ..
  from configure_timing_tim4 [OF d'] configure_timing_tim3 [OF d'] assms d'
  show ?thesis by simp
qed

text \<open>With a lead of 3 the second thresholds are 27 for tim4 and 20 for tim3.\<close>

theorem configure_timing_scenario_thresholds_witness:
  "line_pixels scenario_timing = 100 \<and> sync_pixels scenario_timing = 10
   \<and> back_porch_pixels scenario_timing = 20 \<and> video_pixels scenario_timing = 60
   \<and> \<not> stream1_en power_on
   \<and> configure_timing scenario_timing power_on \<noteq> None
   \<and> ccr2 (tim4 (the (configure_timing scenario_timing power_on))) = 27
   \<and> ccr2 (tim3 (the (configure_timing scenario_timing power_on))) = 20"
proof -
  have h: "line_pixels scenario_timing = 100" "sync_pixels scenario_timing = 10"
    "back_porch_pixels scenario_timing = 20" "video_pixels scenario_timing = 60"
    "\<not> stream1_en power_on"
    by (simp_all add: scenario_timing_def power_on_def)
  from configure_timing_scenario_thresholds [OF h]
  show ?thesis using h by (auto simp: scenario_timing_simps)
qed

text \<open>
  C2 as stated fails for tim3: in the scenario with a lead of 3 its second threshold is
  not \<open>10 + 20 - lead\<close>.
\<close>

theorem configure_timing_tim3_cc2_counterexample:
  "configure_timing scenario_timing power_on \<noteq> None
   \<and> ccr2 (tim3 (the (configure_timing scenario_timing power_on)))
       \<noteq> 10 + 20 - ucast (video_lead scenario_timing)"
proof -
  from scenario_configured obtain d'
    where d': "configure_timing scenario_timing power_on = Some d'" ..
  from configure_timing_tim3 [OF d'] show ?thesis
    by (simp add: d' scenario_timing_simps)
qed

section \<open>The band scheduler\<close>

text \<open>
  C5: \<open>get_next_rasterizer\<close> decrements the count of \<open>current_band\<close> and returns its
  rasterizer when the count is not zero; with a zero count it replaces \<open>current_band\<close> by a
  copy of the band \<open>next\<close> points to and tries again, or returns none when there is no
  next band. For the list \<open>[(R1, 2) -> (R2, 1) -> nil]\<close>, installed as \<open>current_band\<close>, five
  successive calls return \<open>R1\<close>, \<open>R1\<close>, \<open>R2\<close>, none and none.
\<close>

theorem get_next_rasterizer_schedule:
  "(line_count (current_band d) \<noteq> 0 \<longrightarrow>
      get_next_rasterizer d =
        Some (rasterizer (current_band d),
              d\<lparr>current_band := (current_band d)\<lparr>line_count := line_count (current_band d) - 1\<rparr>\<rparr>))
 \<and> (line_count (current_band d) = 0 \<and> next_band (current_band d) = Some p \<longrightarrow>
      get_next_rasterizer d = get_next_rasterizer (d\<lparr>current_band := band_mem d p\<rparr>))
 \<and> (line_count (current_band d) = 0 \<and> next_band (current_band d) = None \<longrightarrow>
      get_next_rasterizer d = Some (None, d))
 \<and> (current_band d = \<lparr>rasterizer = Some R1, line_count = 2, next_band = Some p\<rparr>
      \<and> band_mem d p = \<lparr>rasterizer = Some R2, line_count = 1, next_band = None\<rparr> \<longrightarrow>
      map_option fst (successive_calls 5 d) = Some [Some R1, Some R1, Some R2, None, None])"
proof (intro conjI impI)
  assume "line_count (current_band d) \<noteq> 0"
  then show "get_next_rasterizer d =
        Some (rasterizer (current_band d),
              d\<lparr>current_band := (current_band d)\<lparr>line_count := line_count (current_band d) - 1\<rparr>\<rparr>)"
    by (subst get_next_rasterizer.simps) simp
next
  assume "line_count (current_band d) = 0 \<and> next_band (current_band d) = Some p"
  then show "get_next_rasterizer d = get_next_rasterizer (d\<lparr>current_band := band_mem d p\<rparr>)"
    by (subst get_next_rasterizer.simps) simp
next
  assume "line_count (current_band d) = 0 \<and> next_band (current_band d) = None"
  then show "get_next_rasterizer d = Some (None, d)"
    by (simp add: get_next_rasterizer_exhausted)
next
  assume a: "current_band d = \<lparr>rasterizer = Some R1, line_count = 2, next_band = Some p\<rparr>
      \<and> band_mem d p = \<lparr>rasterizer = Some R2, line_count = 1, next_band = None\<rparr>"
  define d1 where "d1 = d\<lparr>current_band := \<lparr>rasterizer = Some R1, line_count = 1, next_band = Some p\<rparr>\<rparr>"
  define d2 where "d2 = d\<lparr>current_band := \<lparr>rasterizer = Some R1, line_count = 0, next_band = Some p\<rparr>\<rparr>"
  define d3 where "d3 = d\<lparr>current_band := \<lparr>rasterizer = Some R2, line_count = 0, next_band = None\<rparr>\<rparr>"
  have c1: "get_next_rasterizer d = Some (Some R1, d1)"
    using a by (subst get_next_rasterizer.simps) (simp add: d1_def)
  have c2: "get_next_rasterizer d1 = Some (Some R1, d2)"
    by (subst get_next_rasterizer.simps) (simp add: d1_def d2_def)
  have "get_next_rasterizer d2 =
          get_next_rasterizer (d\<lparr>current_band := \<lparr>rasterizer = Some R2, line_count = 1, next_band = None\<rparr>\<rparr>)"
    using a by (subst get_next_rasterizer.simps) (simp add: d2_def)
  also have "\<dots> = Some (Some R2, d3)"
    by (subst get_next_rasterizer.simps) (simp add: d3_def)
  finally have c3: "get_next_rasterizer d2 = Some (Some R2, d3)" .
  have c4: "get_next_rasterizer d3 = Some (None, d3)"
    by (simp add: get_next_rasterizer_exhausted d3_def)
  show "map_option fst (successive_calls 5 d) = Some [Some R1, Some R1, Some R2, None, None]"
    by (simp add: eval_nat_numeral c1 c2 c3 c4)
qed

text \<open>The three rules and the five calls on the concrete list with \<open>R1 = 11\<close>, \<open>R2 = 22\<close>.\<close>

theorem get_next_rasterizer_schedule_witness:
  "line_count (current_band two_bands) \<noteq> 0
   \<and> get_next_rasterizer two_bands =
       Some (Some 11, two_bands\<lparr>current_band := \<lparr>rasterizer = Some 11, line_count = 1, next_band = Some 2\<rparr>\<rparr>)
   \<and> get_next_rasterizer (power_on\<lparr>band_mem := band_mem two_bands,
          current_band := \<lparr>rasterizer = Some 11, line_count = 0, next_band = Some 2\<rparr>\<rparr>)
      = get_next_rasterizer (power_on\<lparr>band_mem := band_mem two_bands,
          current_band := \<lparr>rasterizer = Some 22, line_count = 1, next_band = None\<rparr>\<rparr>)
   \<and> get_next_rasterizer power_on = Some (None, power_on)
   \<and> map_option fst (successive_calls 5 two_bands) = Some [Some 11, Some 11, Some 22, None, None]"
  using get_next_rasterizer_schedule [of two_bands 2 11 22]
    get_next_rasterizer_schedule [of "power_on\<lparr>band_mem := band_mem two_bands,
          current_band := \<lparr>rasterizer = Some 11, line_count = 0, next_band = Some 2\<rparr>\<rparr>" 2 11 22]
    get_next_rasterizer_schedule [of power_on 2 11 22]
  by (simp add: two_bands_def power_on_def empty_band_def)

section \<open>The deferred render task\<close>

lemma pend_sv_flip_idle: "\<not> is_rendered_state (state d) \<Longrightarrow> pend_sv_flip d = Some d"
  by (simp add: pend_sv_flip_def)




text \<open>
  C7: when the flip executes (the handler's first block is entered) with a stored line
  shape of length \<open>len\<close>, a multiple of 4 that fits the working buffer, then afterwards the
  first \<open>len\<close> bytes of the scan buffer equal the first \<open>len\<close> bytes of the working buffer,
  the four bytes after them are zero, and the DMA stream's count is \<open>len / 4 + 1\<close> words.
\<close>

theorem pend_sv_flip_hand_off:
  assumes "is_rendered_state (state d)"
    and "shape_length (working_buffer_shape d) = len"
    and "unat len mod 4 = 0"
    and "unat len \<le> max_pixels_per_line"
  shows "\<exists>d'. pend_sv_flip d = Some d'
           \<and> (\<forall>i < unat len. scan_buffer d' i = working_buffer d' i)
           \<and> (\<forall>i. unat len \<le> i \<and> i < unat len + 4 \<longrightarrow> scan_buffer d' i = 0)
           \<and> stream1_ndtr d' = len div 4 + 1
           \<and> unat (stream1_ndtr d') = unat len div 4 + 1
           \<and> working_buffer d' = working_buffer d"
proof -
  have n: "unat (len div 4) = unat len div 4"
    by (simp add: unat_div)
  have m: "4 * (unat len div 4) = unat len"
    using assms(3) by presburger
  have "unat (len div 4) < 2 ^ 32 - 1"
    using assms(4) n by (simp add: max_pixels_per_line_def)
  then have "unat (len div 4 + 1) = unat (len div 4) + 1"
    by (simp add: unat_word_ariths)
  with n have u: "unat (len div 4 + 1) = unat len div 4 + 1" by simp
  show ?thesis
    using assms u
    by (simp add: pend_sv_flip_def Let_def n m copy_words_def store_zero_word_def
          scan_buffer_size_def)
qed

text \<open>A row of 8 pixels in the active state: byte 7 is copied, byte 8 is zero, 3 words.\<close>

theorem pend_sv_flip_hand_off_witness:
  "is_rendered_state (state (row_ready active))
   \<and> shape_length (working_buffer_shape (row_ready active)) = 8
   \<and> unat (8 :: Word) mod 4 = 0 \<and> unat (8 :: Word) \<le> max_pixels_per_line
   \<and> pend_sv_flip (row_ready active) \<noteq> None
   \<and> scan_buffer (the (pend_sv_flip (row_ready active))) 7 = 0xFF
   \<and> scan_buffer (the (pend_sv_flip (row_ready active))) 8 = 0
   \<and> stream1_ndtr (the (pend_sv_flip (row_ready active))) = 3"
proof -
  have h: "is_rendered_state (state (row_ready active))"
    "shape_length (working_buffer_shape (row_ready active)) = 8"
    "unat (8 :: Word) mod 4 = 0" "unat (8 :: Word) \<le> max_pixels_per_line"
    by (simp_all add: row_ready_def power_on_def is_rendered_state_def max_pixels_per_line_def)
  from pend_sv_flip_hand_off [OF h]
  obtain d' where d': "pend_sv_flip (row_ready active) = Some d'"
    "\<forall>i < unat (8 :: Word). scan_buffer d' i = working_buffer d' i"
    "\<forall>i. unat (8 :: Word) \<le> i \<and> i < unat (8 :: Word) + 4 \<longrightarrow> scan_buffer d' i = 0"
    "stream1_ndtr d' = 8 div 4 + 1" "working_buffer d' = working_buffer (row_ready active)"
    by blast
  from d'(2) have "scan_buffer d' 7 = working_buffer d' 7" by simp
  moreover from d'(3) have "scan_buffer d' 8 = 0" by simp
  ultimately show ?thesis using h d'
    by (simp add: row_ready_def power_on_def)
qed

text \<open>
  C9: when the band scheduler returns none, the render step leaves the working buffer and
  the stored line shape as they were, so the next flip copies the same row under the same
  shape as a flip before the step would have.
\<close>

theorem pend_sv_render_none_keeps_row:
  assumes "get_next_rasterizer d = Some (None, d1)"
  shows "\<exists>d'. pend_sv_render rasterize d = Some d'
           \<and> working_buffer d' = working_buffer d
           \<and> working_buffer_shape d' = working_buffer_shape d
           \<and> map_option scan_buffer (pend_sv_flip d') = map_option scan_buffer (pend_sv_flip d)
           \<and> map_option stream1_ndtr (pend_sv_flip d') = map_option stream1_ndtr (pend_sv_flip d)"
proof -
  from get_next_rasterizer_frame [OF assms]
  have d1: "d1 = d\<lparr>current_band := current_band d1\<rparr>" by simp
  have r: "pend_sv_render rasterize d = Some d \<or> pend_sv_render rasterize d = Some d1"
    using assms by (simp add: pend_sv_render_def Let_def)
  have "pend_sv_flip (d\<lparr>current_band := b\<rparr>)
          = map_option (\<lambda>x. x\<lparr>current_band := b\<rparr>) (pend_sv_flip d)" for b
    by (simp add: pend_sv_flip_def Let_def)
  then have f: "pend_sv_flip d1
          = map_option (\<lambda>x. x\<lparr>current_band := current_band d1\<rparr>) (pend_sv_flip d)"
    using d1 by metis
  have w: "working_buffer d1 = working_buffer d
         \<and> working_buffer_shape d1 = working_buffer_shape d"
    using d1 by (metis driver.select_convs(5,6) driver.surjective driver.update_convs(8))
  from r show ?thesis
  proof
    assume "pend_sv_render rasterize d = Some d"
    then show ?thesis by simp
  next
    assume "pend_sv_render rasterize d = Some d1"
    then show ?thesis using w f
      by (cases "pend_sv_flip d") simp_all
  qed
qed

text \<open>
  In the active state on line 6 of the scenario, with no band left, the render step runs
  the scheduler, gets none, and keeps row and shape.
\<close>

theorem pend_sv_render_none_keeps_row_witness:
  "get_next_rasterizer ((at_line 6)\<lparr>state := active\<rparr>) = Some (None, (at_line 6)\<lparr>state := active\<rparr>)
   \<and> pend_sv_render solid_rasterize ((at_line 6)\<lparr>state := active\<rparr>) \<noteq> None
   \<and> working_buffer (the (pend_sv_render solid_rasterize ((at_line 6)\<lparr>state := active\<rparr>)))
       = working_buffer ((at_line 6)\<lparr>state := active\<rparr>)
   \<and> working_buffer_shape (the (pend_sv_render solid_rasterize ((at_line 6)\<lparr>state := active\<rparr>)))
       = working_buffer_shape ((at_line 6)\<lparr>state := active\<rparr>)"
proof -
  have g: "get_next_rasterizer ((at_line 6)\<lparr>state := active\<rparr>)
             = Some (None, (at_line 6)\<lparr>state := active\<rparr>)"
    by (rule get_next_rasterizer_exhausted) (simp_all add: at_line_simps empty_band_def)
  from pend_sv_render_none_keeps_row [OF g, of solid_rasterize] g
  show ?thesis by auto
qed

text \<open>
  C1: the claim says that the handler hands the working row over exactly in the states
  that are displayed. The handler guards the flip by \<open>is_rendered_state\<close> instead. In the
  state \<open>finishing\<close>, which is displayed, a rendered row is not copied and the stream is not
  armed with its length, although \<open>start_of_active_video\<close> then enables the stream; in the
  state \<open>starting\<close>, which is not displayed, the row is copied and the count is set. Over
  one frame of the scenario with four visible lines, marked 1 to 4 by the rasterizer, the
  stream is started on the rows 1, 2, 3 and 3 again: row 4 is rendered and stays in the
  working buffer.
\<close>

theorem pend_sv_flip_gate_divergence:
  "is_displayed_state finishing
   \<and> pend_sv_flip (row_ready finishing) = Some (row_ready finishing)
   \<and> etl_armv7m_pend_sv_handler default_hblank_interrupt solid_rasterize (row_ready finishing)
       = Some (row_ready finishing)
   \<and> scan_buffer (row_ready finishing) 0 = 0
   \<and> stream1_en (start_of_active_video (row_ready finishing))
   \<and> \<not> is_displayed_state starting
   \<and> pend_sv_flip (row_ready starting) \<noteq> None
   \<and> scan_buffer (the (pend_sv_flip (row_ready starting))) 0 = 0xFF
   \<and> stream1_ndtr (the (pend_sv_flip (row_ready starting))) = 3
   \<and> \<not> stream1_en (start_of_active_video (row_ready starting))
   \<and> map_option fst (scanned_rows numbering_rasterize 9 one_band_frame) = Some [1, 2, 3, 3]
   \<and> map_option (\<lambda>x. working_buffer (snd x) 0) (scanned_rows numbering_rasterize 9 one_band_frame)
       = Some 4"
proof -
  have single:
    "is_displayed_state finishing
     \<and> pend_sv_flip (row_ready finishing) = Some (row_ready finishing)
     \<and> etl_armv7m_pend_sv_handler default_hblank_interrupt solid_rasterize (row_ready finishing)
         = Some (row_ready finishing)
     \<and> scan_buffer (row_ready finishing) 0 = 0
     \<and> stream1_en (start_of_active_video (row_ready finishing))
     \<and> \<not> is_displayed_state starting
     \<and> pend_sv_flip (row_ready starting) \<noteq> None
     \<and> scan_buffer (the (pend_sv_flip (row_ready starting))) 0 = 0xFF
     \<and> stream1_ndtr (the (pend_sv_flip (row_ready starting))) = 3
     \<and> \<not> stream1_en (start_of_active_video (row_ready starting))"
    by (simp add: is_displayed_state_def is_rendered_state_def pend_sv_flip_def
          etl_armv7m_pend_sv_handler_def pend_sv_render_def default_hblank_interrupt_def
          start_of_active_video_def row_ready_def power_on_def Let_def copy_words_def
          store_zero_word_def scan_buffer_size_def max_pixels_per_line_def)
  have frame:
    "\<exists>d. scanned_rows numbering_rasterize 9 one_band_frame = Some ([1, 2, 3, 3], d)
         \<and> working_buffer d 0 = 4"
    by (simp only: eval_nat_numeral BitM.simps scanned_rows.simps)
       (simp add: line_period_def one_band_frame_def at_line_def power_on_def scenario_timing_def
          end_of_active_video_def start_of_active_video_def Let_def
          etl_armv7m_pend_sv_handler_def pend_sv_flip_def pend_sv_render_def
          default_hblank_interrupt_def is_rendered_state_def is_displayed_state_def
          get_next_rasterizer.simps empty_band_def scan_buffer_size_def
          max_pixels_per_line_def numbering_rasterize_def copy_words_def store_zero_word_def)
  from single frame show ?thesis by auto
qed

section \<open>The vertical state machine over a frame\<close>

lemma unat_ushort_less: "unat (x :: ushort) < 65536"
  using unsigned_less [of x, where 'a = nat] by simp

lemma unat_ucast_ushort: "unat (ucast (x :: ushort) :: Word) = unat x"
  using unat_ushort_less [of x] by (simp add: unsigned_ucast_eq take_bit_nat_eq_self)

lemma line_eq_ucast: "((L :: Word) = ucast (x :: ushort)) = (unat L = unat x)"
  by (simp add: word_unat_eq_iff unat_ucast_ushort)

lemma unat_line_of_nat: "k < 65536 \<Longrightarrow> unat (of_nat k :: Word) = k"
  by (simp add: unat_of_nat)

lemma unat_pred: "(x :: ushort) \<noteq> 0 \<Longrightarrow> unat (x - 1) = unat x - 1"
  by (simp add: unat_minus_one)

text \<open>One event, with the line number and the thresholds read as natural numbers.\<close>

lemma eav_step_nat:
  assumes "current_timing d = t" and "current_line d = of_nat k" and "k < 65536"
  shows "state (end_of_active_video d) =
     (if k = 0 then blank
      else if k = unat (vsync_start_line t) \<or> k = unat (vsync_end_line t) then state d
      else if k = unat (video_start_line t - 1) then starting
      else if k = unat (video_start_line t) then active
      else if k = unat (video_end_line t - 1) then finishing
      else state d)"
   and "current_line (end_of_active_video d) =
     (if k \<noteq> 0 \<and> k \<noteq> unat (vsync_start_line t) \<and> k \<noteq> unat (vsync_end_line t)
         \<and> k \<noteq> unat (video_start_line t - 1) \<and> k \<noteq> unat (video_start_line t)
         \<and> k = unat (video_end_line t - 1)
      then 0 else of_nat (Suc k))"
   and "current_timing (end_of_active_video d) = t"
proof -
  have z: "((of_nat k :: Word) = 0) = (k = 0)"
    using assms(3) unat_line_of_nat [of k] by (auto simp: word_unat_eq_iff)
  show "state (end_of_active_video d) =
     (if k = 0 then blank
      else if k = unat (vsync_start_line t) \<or> k = unat (vsync_end_line t) then state d
      else if k = unat (video_start_line t - 1) then starting
      else if k = unat (video_start_line t) then active
      else if k = unat (video_end_line t - 1) then finishing
      else state d)"
    using assms by (simp add: eav_state Let_def line_eq_ucast unat_line_of_nat z)
  show "current_line (end_of_active_video d) =
     (if k \<noteq> 0 \<and> k \<noteq> unat (vsync_start_line t) \<and> k \<noteq> unat (vsync_end_line t)
         \<and> k \<noteq> unat (video_start_line t - 1) \<and> k \<noteq> unat (video_start_line t)
         \<and> k = unat (video_end_line t - 1)
      then 0 else of_nat (Suc k))"
    using assms by (simp add: eav_line Let_def line_eq_ucast unat_line_of_nat z)
  show "current_timing (end_of_active_video d) = t"
    using assms by (simp add: eav_timing)
qed

text \<open>Where the driver is after \<open>k\<close> events of a frame that starts at line 0.\<close>

lemma frame_position:
  assumes t: "current_timing d = t" and l0: "current_line d = 0" and s0: "state d = blank"
    and dl: "distinct_lines t"
    and k: "k \<le> unat (video_end_line t)"
  shows "current_timing ((end_of_active_video ^^ k) d) = t
       \<and> current_line ((end_of_active_video ^^ k) d) =
           (if k = unat (video_end_line t) then 0 else of_nat k)
       \<and> state ((end_of_active_video ^^ k) d) =
           (if k < unat (video_start_line t) then blank
            else if k = unat (video_start_line t) then starting
            else if k < unat (video_end_line t) then active
            else finishing)"
  using k
proof (induction k)
  case 0
  from dl have "0 < unat (video_start_line t)" "0 < unat (video_end_line t)"
    by (simp_all add: distinct_lines_def)
  with t l0 s0 show ?case by simp
next
  case (Suc k)
  let ?d = "(end_of_active_video ^^ k) d"
  from Suc.prems have klt: "k < unat (video_end_line t)" by simp
  with Suc.IH have IH: "current_timing ?d = t" "current_line ?d = of_nat k"
    "state ?d = (if k < unat (video_start_line t) then blank
            else if k = unat (video_start_line t) then starting
            else active)"
    by simp_all
  have k16: "k < 65536" using klt unat_ushort_less [of "video_end_line t"] by simp
  from dl have nz: "video_start_line t \<noteq> 0" "video_end_line t \<noteq> 0"
    by (auto simp: distinct_lines_def)
  note p = unat_pred [OF nz(1)] unat_pred [OF nz(2)]
  note st = eav_step_nat [OF IH(1) IH(2) k16, unfolded p]
  define a e vs ve where "a = unat (video_start_line t)" and "e = unat (video_end_line t)"
    and "vs = unat (vsync_start_line t)" and "ve = unat (vsync_end_line t)"
  note defs = a_def [symmetric] e_def [symmetric] vs_def [symmetric] ve_def [symmetric]
  from dl have h: "1 < a" "a + 1 < e" "vs \<noteq> a - 1" "vs \<noteq> a" "vs \<noteq> e - 1"
    "ve \<noteq> a - 1" "ve \<noteq> a" "ve \<noteq> e - 1"
    by (simp_all add: distinct_lines_def defs)
  from klt have ke: "k < e" by (simp add: defs)
  have tm: "current_timing (end_of_active_video ?d) = t" by (rule st(3))
  consider (B) "Suc k < a" | (S) "Suc k = a" | (A) "a < Suc k" "Suc k < e" | (F) "Suc k = e"
    using ke by linarith
  then have "current_line (end_of_active_video ?d) = (if Suc k = e then 0 else of_nat (Suc k))
      \<and> state (end_of_active_video ?d) =
           (if Suc k < a then blank else if Suc k = a then starting
            else if Suc k < e then active else finishing)"
  proof cases
    case B
    then have "k \<noteq> a - 1" "k \<noteq> a" "k \<noteq> e - 1" "k < a" "Suc k \<noteq> e" using h by linarith+
    with B show ?thesis unfolding st(1,2) IH(3) defs by simp
  next
    case S
    then have "k = a - 1" "k \<noteq> 0" "k \<noteq> vs" "k \<noteq> ve" "k \<noteq> e - 1" "Suc k \<noteq> e"
      using h by linarith+
    with S show ?thesis unfolding st(1,2) IH(3) defs by simp
  next
    case A
    show ?thesis
    proof (cases "k = a")
      case True
      then have "k \<noteq> 0" "k \<noteq> vs" "k \<noteq> ve" "k \<noteq> a - 1" "Suc k \<noteq> e"
        "\<not> Suc k < a" "Suc k \<noteq> a"
        using h A by linarith+
      with True A show ?thesis unfolding st(1,2) IH(3) defs by simp
    next
      case False
      then have "k \<noteq> 0" "k \<noteq> a - 1" "k \<noteq> e - 1" "\<not> k < a" "Suc k \<noteq> e"
        "\<not> Suc k < a" "Suc k \<noteq> a"
        using h A by linarith+
      with False A show ?thesis unfolding st(1,2) IH(3) defs by simp
    qed
  next
    case F
    then have "k = e - 1" "k \<noteq> 0" "k \<noteq> vs" "k \<noteq> ve" "k \<noteq> a - 1" "k \<noteq> a"
      "\<not> Suc k < a" "Suc k \<noteq> a" "\<not> Suc k < e"
      using h by linarith+
    with F show ?thesis unfolding st(1,2) IH(3) defs by simp
  qed
  with tm show ?case by (simp add: defs)
qed

lemma line_events_funpow:
  "line_events n d = map (\<lambda>k. state ((end_of_active_video ^^ Suc k) d)) [0..<n]"
proof (induction n arbitrary: d)
  case 0
  show ?case by simp
next
  case (Suc n)
  have "[0..<Suc n] = 0 # map Suc [0..<n]"
    by (simp only: upt_conv_Cons [OF zero_less_Suc] map_Suc_upt)
  then show ?case
    by (simp add: Suc.IH funpow_swap1 comp_def del: upt_Suc)
qed

lemma states_of_frame:
  "state d # line_events n d = map (\<lambda>k. state ((end_of_active_video ^^ k) d)) [0..<Suc n]"
proof -
  have "[0..<Suc n] = 0 # map Suc [0..<n]"
    by (simp only: upt_conv_Cons [OF zero_less_Suc] map_Suc_upt)
  then show ?thesis
    by (simp add: line_events_funpow comp_def del: upt_Suc funpow.simps)
qed

lemma remdups_adj_same_run: "remdups_adj (x # replicate n x @ ys) = remdups_adj (x # ys)"
  by (induction n) simp_all

lemma frame_states:
  assumes t: "current_timing d = t" and l0: "current_line d = 0" and s0: "state d = blank"
    and dl: "distinct_lines t"
  shows "state d # line_events (unat (video_end_line t)) d =
           replicate (unat (video_start_line t)) blank @ [starting]
           @ replicate (unat (video_end_line t) - unat (video_start_line t) - 1) active
           @ [finishing]"
proof -
  define a e where "a = unat (video_start_line t)" and "e = unat (video_end_line t)"
  from dl have h: "1 < a" "a + 1 < e" by (simp_all add: distinct_lines_def a_def e_def)
  have f: "state ((end_of_active_video ^^ k) d) =
           (if k < a then blank else if k = a then starting
            else if k < e then active else finishing)" if "k \<le> e" for k
    using frame_position [OF t l0 s0 dl, of k] that by (simp add: a_def e_def)
  have "state d # line_events e d = map (\<lambda>k. state ((end_of_active_video ^^ k) d)) [0..<Suc e]"
    by (rule states_of_frame)
  also have "\<dots> = map (\<lambda>k. if k < a then blank else if k = a then starting
            else if k < e then active else finishing) [0..<Suc e]"
    using f by (intro map_cong) auto
  also have "\<dots> = replicate a blank @ [starting] @ replicate (e - a - 1) active @ [finishing]"
    using h by (auto simp: list_eq_iff_nth_eq nth_append nth_Cons' simp del: upt_Suc)
  finally show ?thesis by (simp add: a_def e_def)
qed

text \<open>
  C4, amended. The line counter wraps at \<open>video_end_line\<close>, which is the length of the
  frame (vga.cc has no other line total). For a timing whose video starts after line 1 and
  is at least two lines long, and whose vsync edges are not on the line before the video,
  on its first or on its last line: from line 0 and state blank, \<open>video_end_line\<close> events
  pass through blank, starting, active and finishing in this order, each entered once;
  the line number is then 0 again and the next event enters blank. For every state,
  \<open>is_rendered_state\<close> is bit 0 of its code (starting and active) and \<open>is_displayed_state\<close>
  is bit 1 (active and finishing).
\<close>

theorem vertical_cycle:
  assumes "current_timing d = t" and "current_line d = 0" and "state d = blank"
    and "1 < unat (video_start_line t)"
    and "unat (video_start_line t) + 1 < unat (video_end_line t)"
    and "unat (vsync_start_line t) \<notin>
           {unat (video_start_line t) - 1, unat (video_start_line t), unat (video_end_line t) - 1}"
    and "unat (vsync_end_line t) \<notin>
           {unat (video_start_line t) - 1, unat (video_start_line t), unat (video_end_line t) - 1}"
  shows "state d # line_events (unat (video_end_line t)) d =
           replicate (unat (video_start_line t)) blank @ [starting]
           @ replicate (unat (video_end_line t) - unat (video_start_line t) - 1) active
           @ [finishing]
       \<and> remdups_adj (state d # line_events (unat (video_end_line t)) d)
           = [blank, starting, active, finishing]
       \<and> current_line ((end_of_active_video ^^ unat (video_end_line t)) d) = 0
       \<and> state ((end_of_active_video ^^ Suc (unat (video_end_line t))) d) = blank
       \<and> (\<forall>s. is_rendered_state s = bit (State_code s) 0
              \<and> is_rendered_state s = (s = starting \<or> s = active)
              \<and> is_displayed_state s = bit (State_code s) 1
              \<and> is_displayed_state s = (s = active \<or> s = finishing))"
proof -
  define a e where "a = unat (video_start_line t)" and "e = unat (video_end_line t)"
  from assms(4-7) have dl: "distinct_lines t" by (simp add: distinct_lines_def)
  from assms(4,5) have h: "0 < a" "0 < e - a - 1"
    by (simp_all add: a_def e_def)
  note fs = frame_states [OF assms(1-3) dl, folded a_def e_def]
  from h obtain n m where nm: "a = Suc n" "e - a - 1 = Suc m"
    by (metis Suc_pred)
  have r: "remdups_adj (state d # line_events e d) = [blank, starting, active, finishing]"
    by (simp only: fs nm(2)) (simp add: nm(1) remdups_adj_same_run)
  from frame_position [OF assms(1-3) dl, of e]
  have l: "current_line ((end_of_active_video ^^ e) d) = 0"
    by (simp_all add: e_def)
  have b: "state ((end_of_active_video ^^ Suc e) d) = blank"
    by (simp add: eav_state l Let_def)
  have c: "is_rendered_state s = bit (State_code s) 0
              \<and> is_rendered_state s = (s = starting \<or> s = active)
              \<and> is_displayed_state s = bit (State_code s) 1
              \<and> is_displayed_state s = (s = active \<or> s = finishing)" for s
    by (cases s) (simp_all add: is_rendered_state_def is_displayed_state_def)
  from fs r l b c show ?thesis unfolding a_def e_def by blast
qed

text \<open>The nine lines of the scenario's frame, and the tenth event.\<close>

theorem vertical_cycle_witness:
  "current_timing (at_line 0) = scenario_timing \<and> current_line (at_line 0) = 0
   \<and> state (at_line 0) = blank
   \<and> 1 < unat (video_start_line scenario_timing)
   \<and> unat (video_start_line scenario_timing) + 1 < unat (video_end_line scenario_timing)
   \<and> line_events 9 (at_line 0)
       = [blank, blank, blank, blank, starting, active, active, active, finishing]
   \<and> state ((end_of_active_video ^^ 10) (at_line 0)) = blank"
proof -
  have h: "current_timing (at_line 0) = scenario_timing" "current_line (at_line 0) = 0"
    "state (at_line 0) = blank"
    "1 < unat (video_start_line scenario_timing)"
    "unat (video_start_line scenario_timing) + 1 < unat (video_end_line scenario_timing)"
    "unat (vsync_start_line scenario_timing) \<notin>
           {unat (video_start_line scenario_timing) - 1, unat (video_start_line scenario_timing),
            unat (video_end_line scenario_timing) - 1}"
    "unat (vsync_end_line scenario_timing) \<notin>
           {unat (video_start_line scenario_timing) - 1, unat (video_start_line scenario_timing),
            unat (video_end_line scenario_timing) - 1}"
    by (simp_all add: at_line_simps scenario_timing_simps)
  have u: "unat (video_end_line scenario_timing) = 9" "unat (video_start_line scenario_timing) = 5"
    by (simp_all add: scenario_timing_simps)
  from vertical_cycle [OF h]
  show ?thesis using h(1-5)
    by (simp add: u eval_nat_numeral)
qed

text \<open>
  C4 as stated fails for a timing whose vsync pulse ends on the line before the video:
  that line toggles vsync, the state starting is never entered, and the frame passes
  through blank, active and finishing only.
\<close>

theorem vertical_cycle_counterexample:
  "video_start_line no_back_porch_timing < video_end_line no_back_porch_timing
   \<and> remdups_adj (blank # line_events (unat (video_end_line no_back_porch_timing))
          (power_on\<lparr>current_timing := no_back_porch_timing\<rparr>))
       = [blank, active, finishing]"
proof -
  have lt: "video_start_line no_back_porch_timing < video_end_line no_back_porch_timing"
    by (simp add: no_back_porch_timing_def scenario_timing_def)
  have u: "unat (video_end_line no_back_porch_timing) = 9"
    by (simp add: no_back_porch_timing_def scenario_timing_def)
  have "line_events 9 (power_on\<lparr>current_timing := no_back_porch_timing\<rparr>)
      = [blank, blank, blank, blank, blank, active, active, active, finishing]"
    by (simp only: eval_nat_numeral BitM.simps line_events.simps)
       (simp add: no_back_porch_timing_def scenario_timing_def power_on_def
          end_of_active_video_def Let_def)
  with lt u show ?thesis by simp
qed

text \<open>One event keeps the line number inside the frame.\<close>

lemma eav_keeps_line_in_frame:
  assumes t: "current_timing d = t"
    and lt: "video_start_line t < video_end_line t"
    and w: "wrap_line_reachable t"
    and inv: "current_line d < ucast (video_end_line t)"
  shows "current_line (end_of_active_video d) < ucast (video_end_line t)
       \<and> current_timing (end_of_active_video d) = t
       \<and> (current_line d = ucast (video_end_line t - 1) \<longrightarrow>
             current_line (end_of_active_video d) = 0)"
proof -
  define k a e vs ve where "k = unat (current_line d)" and "a = unat (video_start_line t)"
    and "e = unat (video_end_line t)" and "vs = unat (vsync_start_line t)"
    and "ve = unat (vsync_end_line t)"
  have e16: "e < 65536" unfolding e_def by (rule unat_ushort_less)
  from inv have ke: "k < e"
    by (simp add: word_less_nat_alt unat_ucast_ushort k_def e_def)
  from lt have ae: "a < e" by (simp add: word_less_nat_alt a_def e_def)
  then have enz: "video_end_line t \<noteq> 0" by (auto simp: e_def)
  have pe: "unat (video_end_line t - 1) = e - 1" using unat_pred [OF enz] by (simp add: e_def)
  have pa: "unat (video_start_line t - 1) \<noteq> e - 1"
  proof (cases "video_start_line t = 0")
    case True
    then have "unat (video_start_line t - 1) = 65535"
      by (simp add: unsigned_minus_1_eq_mask mask_eq_exp_minus_1)
    with e16 show ?thesis by simp
  next
    case False
    then have "0 < a" by (simp add: a_def unat_gt_0)
    with unat_pred [OF False] ae show ?thesis by (simp add: a_def)
  qed
  from w have h: "e - 1 \<noteq> 0" "e - 1 \<noteq> vs" "e - 1 \<noteq> ve" "e - 1 \<noteq> a"
    unfolding wrap_line_reachable_def word_unat_eq_iff pe vs_def ve_def a_def by simp_all
  have l: "current_line d = of_nat k" by (simp add: k_def)
  have k16: "k < 65536" using ke e16 by simp
  note st = eav_step_nat [OF t l k16, unfolded pe, folded a_def e_def vs_def ve_def]
  have tm: "current_timing (end_of_active_video d) = t" by (rule st(3))
  have wr: "current_line (end_of_active_video d) = 0" if "k = e - 1"
    unfolding st(2) using that h pa by simp
  have "unat (current_line (end_of_active_video d)) < e"
  proof (cases "k = e - 1")
    case True
    from wr [OF this] ke show ?thesis by simp
  next
    case False
    with ke have s: "Suc k < e" by simp
    with e16 have "unat (of_nat (Suc k) :: Word) = Suc k"
      by (simp add: unat_line_of_nat del: of_nat_Suc)
    with False s show ?thesis unfolding st(2) by (simp del: of_nat_Suc)
  qed
  then have "current_line (end_of_active_video d) < ucast (video_end_line t)"
    by (simp add: word_less_nat_alt unat_ucast_ushort e_def)
  moreover have "current_line d = ucast (video_end_line t - 1) \<longrightarrow>
             current_line (end_of_active_video d) = 0"
    using wr by (simp add: line_eq_ucast pe k_def)
  ultimately show ?thesis using tm by simp
qed

text \<open>
  For a timing with \<open>video_start_line < video_end_line\<close> whose last line
  \<open>video_end_line - 1\<close> is not line 0, not an edge of the vsync pulse and not
  \<open>video_start_line\<close>, the wrap is reached: \<open>configure_timing\<close> sets the line number to 0,
  every number of end-of-active-video events afterwards leaves it below \<open>video_end_line\<close>,
  and the event at line \<open>video_end_line - 1\<close> sets it to 0.
\<close>

theorem line_stays_in_frame:
  assumes "video_start_line t < video_end_line t"
    and "video_end_line t - 1 \<notin> {0, vsync_start_line t, vsync_end_line t, video_start_line t}"
    and "configure_timing t d = Some d0"
  shows "current_line d0 = 0
       \<and> current_line ((end_of_active_video ^^ n) d0) < ucast (video_end_line t)
       \<and> (current_line ((end_of_active_video ^^ n) d0) = ucast (video_end_line t - 1) \<longrightarrow>
            current_line ((end_of_active_video ^^ Suc n) d0) = 0)"
proof -
  from assms(2) have w: "wrap_line_reachable t" by (simp add: wrap_line_reachable_def)
  from configure_timing_globals [OF assms(3)]
  have g: "current_line d0 = 0" "current_timing d0 = t" by simp_all
  from assms(1) have "0 < unat (video_end_line t)" by (simp add: word_less_nat_alt)
  then have z: "(0 :: Word) < ucast (video_end_line t)"
    by (simp add: word_less_nat_alt unat_ucast_ushort)
  have inv: "current_line ((end_of_active_video ^^ n) d0) < ucast (video_end_line t)
       \<and> current_timing ((end_of_active_video ^^ n) d0) = t" for n
  proof (induction n)
    case 0
    from g z show ?case by simp
  next
    case (Suc n)
    with eav_keeps_line_in_frame [OF _ assms(1) w, of "(end_of_active_video ^^ n) d0"]
    show ?case by simp
  qed
  from inv [of n] eav_keeps_line_in_frame [OF _ assms(1) w, of "(end_of_active_video ^^ n) d0"]
  show ?thesis using g by simp
qed

text \<open>In the scenario, eight events lead to line 8 and the ninth back to line 0.\<close>

theorem line_stays_in_frame_witness:
  "video_start_line scenario_timing < video_end_line scenario_timing
   \<and> video_end_line scenario_timing - 1 \<notin> {0, vsync_start_line scenario_timing,
         vsync_end_line scenario_timing, video_start_line scenario_timing}
   \<and> configure_timing scenario_timing power_on \<noteq> None
   \<and> current_line ((end_of_active_video ^^ 8) (the (configure_timing scenario_timing power_on)))
       = ucast (video_end_line scenario_timing - 1)
   \<and> current_line ((end_of_active_video ^^ 9) (the (configure_timing scenario_timing power_on))) = 0"
proof -
  have h: "video_start_line scenario_timing < video_end_line scenario_timing"
    "video_end_line scenario_timing - 1 \<notin> {0, vsync_start_line scenario_timing,
         vsync_end_line scenario_timing, video_start_line scenario_timing}"
    by (simp_all add: scenario_timing_def)
  from scenario_configured obtain d0
    where d0: "configure_timing scenario_timing power_on = Some d0" ..
  from configure_timing_globals [OF d0]
  have g: "current_line d0 = 0" "current_timing d0 = scenario_timing" by simp_all
  have e8: "current_line ((end_of_active_video ^^ 8) d0) = 8"
    by (simp only: eval_nat_numeral BitM.simps funpow.simps comp_def)
       (simp add: eav_line eav_timing g Let_def scenario_timing_def)
  from line_stays_in_frame [OF h d0, of 8] e8
  have "current_line ((end_of_active_video ^^ Suc 8) d0) = 0"
    by (simp add: scenario_timing_def del: funpow.simps)
  moreover have "Suc 8 = 9" by simp
  ultimately have "current_line ((end_of_active_video ^^ 9) d0) = 0" by (simp only:)
  with e8 h d0 show ?thesis by (simp add: scenario_timing_def)
qed

text \<open>
  C10: the claim is the range the source gives for \<open>current_line\<close>,
  \<open>[0, video_end_line)\<close>, for every timing with \<open>video_start_line < video_end_line\<close>. The
  code leaves the range for a video of one line (\<open>video_start_line = 5\<close>,
  \<open>video_end_line = 6\<close>): at line 5 the branch for \<open>video_start_line\<close> is taken, the branch
  that makes the line roll over is skipped, and after six events from \<open>configure_timing\<close>
  the line number is 6, which is \<open>video_end_line\<close>.
\<close>

theorem current_line_leaves_frame:
  "video_start_line one_line_timing < video_end_line one_line_timing
   \<and> configure_timing one_line_timing power_on \<noteq> None
   \<and> current_line ((end_of_active_video ^^ 5) (the (configure_timing one_line_timing power_on)))
       = ucast (video_end_line one_line_timing - 1)
   \<and> current_line ((end_of_active_video ^^ 6) (the (configure_timing one_line_timing power_on)))
       = ucast (video_end_line one_line_timing)
   \<and> \<not> current_line ((end_of_active_video ^^ 6) (the (configure_timing one_line_timing power_on)))
        < ucast (video_end_line one_line_timing)"
proof -
  have lt: "video_start_line one_line_timing < video_end_line one_line_timing"
    by (simp add: one_line_timing_def scenario_timing_def)
  have "unat (video_pixels one_line_timing) + 3 < scan_buffer_size"
    by (simp add: one_line_timing_def scenario_timing_def scan_buffer_size_def
          max_pixels_per_line_def)
  moreover have "\<not> stream1_en power_on" by (simp add: power_on_def)
  ultimately obtain d0 where d0: "configure_timing one_line_timing power_on = Some d0"
    using configure_timing_idle by blast
  from configure_timing_globals [OF d0]
  have g: "current_line d0 = 0" "current_timing d0 = one_line_timing" by simp_all
  have "current_line ((end_of_active_video ^^ 5) d0) = 5"
    by (simp only: eval_nat_numeral BitM.simps funpow.simps comp_def)
       (simp add: eav_line eav_timing g Let_def one_line_timing_def scenario_timing_def)
  moreover have "current_line ((end_of_active_video ^^ 6) d0) = 6"
    by (simp only: eval_nat_numeral BitM.simps funpow.simps comp_def)
       (simp add: eav_line eav_timing g Let_def one_line_timing_def scenario_timing_def)
  ultimately show ?thesis using lt d0
    by (simp add: one_line_timing_def scenario_timing_def)
qed

section \<open>Clearing the band list under preemption\<close>

text \<open>
  Without preemption the first two foreground steps are \<open>configure_band_list(nullptr)\<close>.
\<close>

lemma clear_band_list_installs:
  "clear_band_list_step (clear_band_list_step (Store_head, d))
     = (Test_taken, configure_band_list None d)"
  by (simp add: configure_band_list_def)

















end
